theory Spec2Isabelle
  imports Complex_Main
begin

section \<open>Numbers, errors and vectors\<close>

text \<open>
  Python floats are modelled by the type \<open>real\<close>: every arithmetic operation is exact, and
  \<open>math.sqrt\<close>, \<open>math.acos\<close>, \<open>math.cos\<close> and \<open>math.sin\<close> are the real functions. The
  rounding of IEEE doubles is not modelled, so a computed number is compared with the
  number it stands for up to a tolerance (\<open>is_close\<close>, \<open>1e-5\<close>), and the matrices given to
  \<open>fromMatrix\<close> are rotation matrices, whose entries lie between -1 and 1. What the
  source raises is a value of \<open>error\<close>; a fallible function returns \<open>error + 'a\<close>.
  \<open>ZeroDivisor\<close> records that a division was reached with the divisor zero (the vector
  classes wrap numpy arrays, where this yields nan or inf components and a warning).
\<close>

datatype error =
  ValueError | IndexError | LinAlgError | ZeroDivisor | StopOptimizingException

definition eps :: real where
  "eps = 1 / 10000000"

text \<open>
  Modelled from the spec: the classes \<open>Vector3\<close> and \<open>Vector4\<close> of \<open>math/vector.py\<close> are
  not among the sources; they are fixed-size numeric vectors with component-wise sum,
  scaling, division by a scalar, the dot product (\<open>|\<close>), the cross product (\<open>^\<close>), the
  Euclidean \<open>length\<close> and \<open>normalized\<close> (division by the length, left alone when it is 0).
\<close>

datatype Vector3 = Vector3 (vx: real) (vy: real) (vz: real)

definition v3_zero :: Vector3 where
  "v3_zero = Vector3 0 0 0"

definition v3_add :: "Vector3 \<Rightarrow> Vector3 \<Rightarrow> Vector3" where
  "v3_add a b = Vector3 (vx a + vx b) (vy a + vy b) (vz a + vz b)"

definition v3_sub :: "Vector3 \<Rightarrow> Vector3 \<Rightarrow> Vector3" where
  "v3_sub a b = Vector3 (vx a - vx b) (vy a - vy b) (vz a - vz b)"

definition v3_scale :: "Vector3 \<Rightarrow> real \<Rightarrow> Vector3" where
  "v3_scale a k = Vector3 (vx a * k) (vy a * k) (vz a * k)"

definition v3_div :: "Vector3 \<Rightarrow> real \<Rightarrow> Vector3" where
  "v3_div a k = Vector3 (vx a / k) (vy a / k) (vz a / k)"

definition v3_dot :: "Vector3 \<Rightarrow> Vector3 \<Rightarrow> real" where
  "v3_dot a b = vx a * vx b + vy a * vy b + vz a * vz b"

definition v3_cross :: "Vector3 \<Rightarrow> Vector3 \<Rightarrow> Vector3" where
  "v3_cross a b = Vector3 (vy a * vz b - vz a * vy b)
                          (vz a * vx b - vx a * vz b)
                          (vx a * vy b - vy a * vx b)"

definition v3_length :: "Vector3 \<Rightarrow> real" where
  "v3_length a = sqrt (vx a * vx a + vy a * vy a + vz a * vz a)"

definition v3_normalized :: "Vector3 \<Rightarrow> Vector3" where
  "v3_normalized a = (if v3_length a \<noteq> 0 then v3_div a (v3_length a) else a)"

text \<open>
  Modelled from the spec: \<open>Matrix33\<close> of \<open>math/matrix.py\<close> is not among the sources; the
  code reads its entries as \<open>m11\<close> ... \<open>m33\<close> (row, then column).
\<close>

record Matrix33 =
  m11 :: real
  m12 :: real
  m13 :: real
  m21 :: real
  m22 :: real
  m23 :: real
  m31 :: real
  m32 :: real
  m33 :: real

section \<open>Quaternion\<close>

text \<open>The constructor \<open>Quaternion(w, x, y, z)\<close>; \<open>Quaternion()\<close> is all zeros.\<close>

datatype Quaternion = Quaternion (qw: real) (qx: real) (qy: real) (qz: real)

definition identity :: Quaternion where
  "identity = Quaternion 1 0 0 0"

definition axis :: "Quaternion \<Rightarrow> Vector3" where
  "axis q = Vector3 (qx q) (qy q) (qz q)"

definition conjugate :: "Quaternion \<Rightarrow> Quaternion" where
  "conjugate q = Quaternion (qw q) (- qx q) (- qy q) (- qz q)"

definition magnitude :: "Quaternion \<Rightarrow> real" where
  "magnitude q = sqrt (qx q * qx q + qy q * qy q + qz q * qz q + qw q * qw q)"

definition normalize :: "Quaternion \<Rightarrow> Quaternion" where
  "normalize q =
     (let length = magnitude q in
      if length \<noteq> 0
      then Quaternion (qw q / length) (qx q / length) (qy q / length) (qz q / length)
      else Quaternion 0 0 0 0)"

definition q_inverse :: "Quaternion \<Rightarrow> Quaternion" where
  "q_inverse q = normalize (conjugate q)"

text \<open>\<open>__mul__\<close>: the Hamilton product.\<close>

definition q_mul :: "Quaternion \<Rightarrow> Quaternion \<Rightarrow> Quaternion" where
  "q_mul a b =
     (let w1 = qw a; w2 = qw b; v1 = axis a; v2 = axis b;
          w = w1 * w2 - v3_dot v1 v2;
          v = v3_add (v3_add (v3_scale v2 w1) (v3_scale v1 w2)) (v3_cross v1 v2)
      in Quaternion w (vx v) (vy v) (vz v))"

definition rotate :: "Quaternion \<Rightarrow> Vector3 \<Rightarrow> Vector3" where
  "rotate q point =
     (let p = Quaternion 0 (vx point) (vy point) (vz point);
          q_inv = q_inverse q;
          rotated = q_mul (q_mul q p) q_inv
      in axis rotated)"

definition toMatrix :: "Quaternion \<Rightarrow> Matrix33" where
  "toMatrix q =
     (let twoxx = 2 * qx q * qx q; twoyy = 2 * qy q * qy q; twozz = 2 * qz q * qz q;
          twowx = 2 * qw q * qx q; twowy = 2 * qw q * qy q; twowz = 2 * qw q * qz q;
          twoxy = 2 * qx q * qy q; twoxz = 2 * qx q * qz q;
          twoyz = 2 * qy q * qz q
      in \<lparr> m11 = 1 - twoyy - twozz, m12 = twoxy - twowz, m13 = twoxz + twowy,
           m21 = twoxy + twowz, m22 = 1 - twoxx - twozz, m23 = twoyz - twowx,
           m31 = twoxz - twowy, m32 = twoyz + twowx, m33 = 1 - twoxx - twoyy \<rparr>)"

text \<open>
  \<open>toAxisAngle\<close>. \<open>math.acos\<close> raises ValueError outside \<open>[-1, 1]\<close> and \<open>math.sqrt\<close> on a
  negative number. The division of the vector part by \<open>s\<close> is guarded by \<open>angle < eps\<close>
  only.
\<close>

definition toAxisAngle :: "Quaternion \<Rightarrow> error + (Vector3 \<times> real)" where
  "toAxisAngle q =
     (if qw q < - 1 \<or> 1 < qw q then Inl ValueError
      else let angle = 2 * arccos (qw q) in
        if 1 - qw q * qw q < 0 then Inl ValueError
        else let s = sqrt (1 - qw q * qw q) in
          if angle < eps then Inr (v3_zero, angle)
          else if s = 0 then Inl ZeroDivisor
          else Inr (v3_div (Vector3 (qx q) (qy q) (qz q)) s, angle))"

definition fromAxisAngle :: "Vector3 \<Rightarrow> real \<Rightarrow> Quaternion" where
  "fromAxisAngle ax angle =
     (let w = cos (angle / 2);
          v = v3_scale (v3_normalized ax) (sin (angle / 2))
      in Quaternion w (vx v) (vy v) (vz v))"

text \<open>
  \<open>fromMatrix\<close>, in two steps: the branch taken gives \<open>t\<close> and the list \<open>q\<close> (in the order
  of the constructor: w, x, y, z); then \<open>q * 0.5 / math.sqrt(t)\<close>.
\<close>

definition fromMatrix_tq :: "Matrix33 \<Rightarrow> real \<times> real list" where
  "fromMatrix_tq matrix =
     (if m33 matrix < eps then
        (if m11 matrix > m22 matrix then
           (let t = 1 + m11 matrix - m22 matrix - m33 matrix
            in (t, [m32 matrix - m23 matrix, t, m12 matrix + m21 matrix,
                    m13 matrix + m31 matrix]))
         else
           (let t = 1 - m11 matrix + m22 matrix - m33 matrix
            in (t, [m13 matrix - m31 matrix, m12 matrix + m21 matrix, t,
                    m23 matrix + m32 matrix])))
      else
        (if m11 matrix < - m22 matrix then
           (let t = 1 - m11 matrix - m22 matrix + m33 matrix
            in (t, [m21 matrix - m12 matrix, m13 matrix + m31 matrix,
                    m23 matrix + m32 matrix, t]))
         else
           (let t = 1 + m11 matrix + m22 matrix + m33 matrix
            in (t, [t, m32 matrix - m23 matrix, m13 matrix - m31 matrix,
                    m21 matrix - m12 matrix]))))"

definition fromMatrix :: "Matrix33 \<Rightarrow> error + Quaternion" where
  "fromMatrix matrix =
     (case fromMatrix_tq matrix of
        (t, q) \<Rightarrow>
          if t < 0 then Inl ValueError
          else if sqrt t = 0 then Inl ZeroDivisor
          else (case map (\<lambda>c. c * (1 / 2) / sqrt t) q of
                  [a, b, c, d] \<Rightarrow> Inr (Quaternion a b c d)
                | _ \<Rightarrow> Inl ValueError))"

text \<open>
  \<open>is_close\<close> of \<open>math/misc.py\<close>, at two quaternions: every component differs by less
  than the tolerance (default \<open>1e-5\<close>).
\<close>

definition is_close :: "Quaternion \<Rightarrow> Quaternion \<Rightarrow> real \<Rightarrow> bool" where
  "is_close a b tol \<longleftrightarrow>
     \<bar>qw a - qw b\<bar> < tol \<and> \<bar>qx a - qx b\<bar> < tol \<and> \<bar>qy a - qy b\<bar> < tol \<and> \<bar>qz a - qz b\<bar> < tol"


text \<open>
  The four candidate values of \<open>t\<close>, one per branch of \<open>fromMatrix\<close>, and the largest of
  them: the selection in the words of the specification (largest of m11, m22, m33 and the
  trace; \<open>t\<close> grows with each of them).
\<close>

definition t_candidates :: "Matrix33 \<Rightarrow> real list" where
  "t_candidates m =
     [1 + m11 m - m22 m - m33 m, 1 - m11 m + m22 m - m33 m,
      1 - m11 m - m22 m + m33 m, 1 + m11 m + m22 m + m33 m]"

definition largest_t :: "Matrix33 \<Rightarrow> real" where
  "largest_t m = fold max (t_candidates m) (hd (t_candidates m))"

text \<open>A proper rotation matrix: its rows are orthonormal and its determinant is 1.\<close>

definition is_rotation :: "Matrix33 \<Rightarrow> bool" where
  "is_rotation m \<longleftrightarrow>
     m11 m * m11 m + m12 m * m12 m + m13 m * m13 m = 1 \<and>
     m21 m * m21 m + m22 m * m22 m + m23 m * m23 m = 1 \<and>
     m31 m * m31 m + m32 m * m32 m + m33 m * m33 m = 1 \<and>
     m11 m * m21 m + m12 m * m22 m + m13 m * m23 m = 0 \<and>
     m11 m * m31 m + m12 m * m32 m + m13 m * m33 m = 0 \<and>
     m21 m * m31 m + m22 m * m32 m + m23 m * m33 m = 0 \<and>
     m11 m * (m22 m * m33 m - m23 m * m32 m)
       - m12 m * (m21 m * m33 m - m23 m * m31 m)
       + m13 m * (m21 m * m32 m - m22 m * m31 m) = 1"

text \<open>
  An input for \<open>fromMatrix\<close>: the rotation matrix of the unit quaternion
  \<open>(6/9, 5/9, 4/9, 2/9)\<close>, entry by entry.
\<close>

definition example_rotation :: Matrix33 where
  "example_rotation =
     \<lparr> m11 = 41 / 81, m12 = 16 / 81, m13 = 68 / 81,
       m21 = 64 / 81, m22 = 23 / 81, m23 = - 44 / 81,
       m31 = - 28 / 81, m32 = 76 / 81, m33 = - 1 / 81 \<rparr>"

section \<open>Matrix44 and QuaternionVectorPair\<close>

text \<open>
  Modelled from the spec: \<open>Matrix44\<close> of \<open>math/matrix.py\<close> is not among the sources; it is
  a 4x4 homogeneous matrix, here four rows of four numbers, with \<open>identity()\<close> and the
  matrix product \<open>@\<close>.
\<close>

datatype Vector4 = Vector4 (c1: real) (c2: real) (c3: real) (c4: real)

datatype Matrix44 = Matrix44 (row1: Vector4) (row2: Vector4) (row3: Vector4) (row4: Vector4)

definition m44_identity :: Matrix44 where
  "m44_identity =
     Matrix44 (Vector4 1 0 0 0) (Vector4 0 1 0 0) (Vector4 0 0 1 0) (Vector4 0 0 0 1)"

definition v4_dot :: "Vector4 \<Rightarrow> Vector4 \<Rightarrow> real" where
  "v4_dot a b = c1 a * c1 b + c2 a * c2 b + c3 a * c3 b + c4 a * c4 b"

definition m44_column :: "(Vector4 \<Rightarrow> real) \<Rightarrow> Matrix44 \<Rightarrow> Vector4" where
  "m44_column c m = Vector4 (c (row1 m)) (c (row2 m)) (c (row3 m)) (c (row4 m))"

definition row_matmul :: "Vector4 \<Rightarrow> Matrix44 \<Rightarrow> Vector4" where
  "row_matmul r b =
     Vector4 (v4_dot r (m44_column c1 b)) (v4_dot r (m44_column c2 b))
             (v4_dot r (m44_column c3 b)) (v4_dot r (m44_column c4 b))"

definition matmul :: "Matrix44 \<Rightarrow> Matrix44 \<Rightarrow> Matrix44" where
  "matmul a b =
     Matrix44 (row_matmul (row1 a) b) (row_matmul (row2 a) b)
              (row_matmul (row3 a) b) (row_matmul (row4 a) b)"

text \<open>
  \<open>QuaternionVectorPair\<close>. The type of \<open>qvp_mul\<close> excludes the operand that is not a
  pair, for which \<open>__mul__\<close> raises ValueError.
\<close>

datatype QuaternionVectorPair =
  QuaternionVectorPair (pair_quaternion: Quaternion) (pair_vector: Vector3)

definition qvp_identity :: QuaternionVectorPair where
  "qvp_identity = QuaternionVectorPair identity v3_zero"

definition qvp_mul :: "QuaternionVectorPair \<Rightarrow> QuaternionVectorPair \<Rightarrow> QuaternionVectorPair" where
  "qvp_mul a b =
     (let q = q_mul (pair_quaternion a) (pair_quaternion b);
          v = v3_add (rotate (pair_quaternion a) (pair_vector b)) (pair_vector a)
      in QuaternionVectorPair q v)"

definition qvp_toMatrix :: "QuaternionVectorPair \<Rightarrow> Matrix44" where
  "qvp_toMatrix p =
     (let r = toMatrix (pair_quaternion p); v = pair_vector p
      in Matrix44 (Vector4 (m11 r) (m12 r) (m13 r) (vx v))
                  (Vector4 (m21 r) (m22 r) (m23 r) (vy v))
                  (Vector4 (m31 r) (m32 r) (m33 r) (vz v))
                  (Vector4 0 0 0 1))"

section \<open>Link\<close>

datatype Type = Revolute | Prismatic

text \<open>
  The fields of \<open>Link\<close>; the mesh is an opaque attachment that no operation reads, and is
  left out.
\<close>

record Link =
  joint_axis :: Vector3
  quaternion :: Quaternion
  vector :: Vector3
  home :: Vector3
  type :: Type
  lower_limit :: "real option"
  upper_limit :: "real option"
  default_offset :: real
  set_point :: real
  offset :: real
  link_name :: string
  locked :: bool
  ignore_limits :: bool

definition move :: "Link \<Rightarrow> real \<Rightarrow> bool \<Rightarrow> bool \<Rightarrow> Link" where
  "move l off ignore_locks setpoint =
     (if locked l \<and> \<not> ignore_locks then l
      else
        let l1 = l\<lparr>offset := off\<rparr>;
            l2 = l1\<lparr>set_point := (if setpoint then off else set_point l1)\<rparr>
        in if type l2 = Revolute
           then let l3 = l2\<lparr>quaternion := fromAxisAngle (joint_axis l2) off\<rparr>
                in l3\<lparr>vector := rotate (quaternion l3) (home l3)\<rparr>
           else l2\<lparr>vector := v3_add (home l2) (v3_scale (joint_axis l2) off)\<rparr>)"

text \<open>\<open>Link.reset\<close>: \<open>self.move(self.default_offset, True)\<close>, the set-point flag at its default.\<close>

definition link_reset :: "Link \<Rightarrow> Link" where
  "link_reset l = move l (default_offset l) True True"

text \<open>
  \<open>Link.__init__\<close>. The attribute \<open>offset\<close> is first assigned by the closing \<open>reset()\<close>;
  the record needs a value before that, and gets the default offset.
\<close>

definition link_init ::
  "Vector3 \<Rightarrow> Vector3 \<Rightarrow> Type \<Rightarrow> real \<Rightarrow> real option \<Rightarrow> real option \<Rightarrow> string
     \<Rightarrow> error + Link" where
  "link_init ax point jtype d_offset upper lower nm =
     (if v3_length ax < 1 / 100000 then Inl ValueError
      else Inr (link_reset
        \<lparr> joint_axis = ax, quaternion = fromAxisAngle ax 0, vector = point, home = point,
          type = jtype, lower_limit = lower, upper_limit = upper,
          default_offset = d_offset, set_point = d_offset, offset = d_offset,
          link_name = nm, locked = False, ignore_limits = False \<rparr>))"

definition quaterionVectorPair :: "Link \<Rightarrow> QuaternionVectorPair" where
  "quaterionVectorPair l = QuaternionVectorPair (quaternion l) (vector l)"

section \<open>SerialManipulator\<close>

text \<open>The fields of \<open>SerialManipulator\<close>, without the opaque base mesh.\<close>

record SerialManipulator =
  name :: string
  links :: "Link list"
  base :: Matrix44
  default_base :: Matrix44
  tool :: Matrix44

definition serial_manipulator_init ::
  "Link list \<Rightarrow> Matrix44 option \<Rightarrow> Matrix44 option \<Rightarrow> string \<Rightarrow> SerialManipulator" where
  "serial_manipulator_init ls b t nm =
     (let b' = (case b of None \<Rightarrow> m44_identity | Some m \<Rightarrow> m)
      in \<lparr> name = nm, links = ls, base = b', default_base = b',
           tool = (case t of None \<Rightarrow> m44_identity | Some m \<Rightarrow> m) \<rparr>)"

definition numberOfLinks :: "SerialManipulator \<Rightarrow> nat" where
  "numberOfLinks ri = length (links ri)"

definition configuration :: "SerialManipulator \<Rightarrow> real list" where
  "configuration ri = map offset (links ri)"

definition set_points :: "SerialManipulator \<Rightarrow> real list" where
  "set_points ri = map set_point (links ri)"

definition resetOffsets :: "SerialManipulator \<Rightarrow> SerialManipulator" where
  "resetOffsets ri = ri\<lparr>links := map link_reset (links ri)\<rparr>"

definition reset :: "SerialManipulator \<Rightarrow> SerialManipulator" where
  "reset ri =
     (let ri1 = ri\<lparr>base := default_base ri\<rparr>
      in ri1\<lparr>links :=
              map (\<lambda>l. (link_reset l)\<lparr>locked := False, ignore_limits := False\<rparr>) (links ri1)\<rparr>)"

text \<open>
  \<open>fkine\<close>. The two assignments that make the effective indices, then the loop over
  \<open>range(start, end)\<close>: each visited link is moved and its pose is multiplied into \<open>qs\<close>.
  \<open>q[i]\<close> raises IndexError when \<open>q\<close> is too short; the links moved before that stay moved,
  so the chain is returned beside the result.
\<close>

definition fkine_start :: "int \<Rightarrow> int" where
  "fkine_start start_index = (if start_index < 0 then 0 else start_index)"

definition fkine_end :: "int \<Rightarrow> int option \<Rightarrow> int" where
  "fkine_end link_count end_index =
     (case end_index of
        None \<Rightarrow> link_count
      | Some e \<Rightarrow> if e > link_count then link_count else e)"

fun fkine_loop ::
  "nat list \<Rightarrow> real list \<Rightarrow> bool \<Rightarrow> bool \<Rightarrow> Link list \<Rightarrow> QuaternionVectorPair
     \<Rightarrow> Link list \<times> (error + QuaternionVectorPair)" where
  "fkine_loop [] q ignore_locks setpoint ls qs = (ls, Inr qs)"
| "fkine_loop (i # rest) q ignore_locks setpoint ls qs =
     (if length ls \<le> i \<or> length q \<le> i then (ls, Inl IndexError)
      else
        let l = move (ls ! i) (q ! i) ignore_locks setpoint
        in fkine_loop rest q ignore_locks setpoint (ls[i := l])
             (qvp_mul qs (quaterionVectorPair l)))"

definition fkine ::
  "SerialManipulator \<Rightarrow> real list \<Rightarrow> int \<Rightarrow> int option \<Rightarrow> bool \<Rightarrow> bool \<Rightarrow> bool
     \<Rightarrow> SerialManipulator \<times> (error + Matrix44)" where
  "fkine ri q start_index end_index include_base ignore_locks setpoint =
     (let link_count = int (numberOfLinks ri);
          start = fkine_start start_index;
          stop = fkine_end link_count end_index;
          b = (if include_base \<and> start = 0 then base ri else m44_identity);
          t = (if stop = link_count then tool ri else m44_identity)
      in case fkine_loop (map nat [start..stop - 1]) q ignore_locks setpoint (links ri)
                qvp_identity of
           (ls, Inl e) \<Rightarrow> (ri\<lparr>links := ls\<rparr>, Inl e)
         | (ls, Inr qs) \<Rightarrow> (ri\<lparr>links := ls\<rparr>, Inr (matmul (matmul b (qvp_toMatrix qs)) t)))"

text \<open>The call \<open>fkine(q)\<close> with every default.\<close>

definition fkine_default :: "SerialManipulator \<Rightarrow> real list \<Rightarrow> SerialManipulator \<times> (error + Matrix44)" where
  "fkine_default ri q = fkine ri q 0 None True False True"


section \<open>Trajectories\<close>

text \<open>
  The numpy functions that \<open>cubic_polynomial_trajectory\<close> calls, over the reals.
  \<open>np.linspace(start, stop, num)\<close> gives \<open>num\<close> equally spaced samples with both ends
  included (the last one is set to \<open>stop\<close>); \<open>np.polyval\<close> evaluates a polynomial given by
  its coefficients, highest degree first, by Horner's rule; \<open>np.dot\<close> of a matrix and a
  vector is their product; \<open>np.linalg.inv\<close> is the inverse of a square matrix, here by
  cofactors, and raises LinAlgError when the matrix is singular.
\<close>

definition linspace :: "real \<Rightarrow> real \<Rightarrow> nat \<Rightarrow> real list" where
  "linspace start stop num =
     (if num = 1 then [start]
      else (map (\<lambda>k. start + real k * ((stop - start) / real (num - 1))) [0..<num])
             [num - 1 := stop])"

definition polyval :: "real list \<Rightarrow> real \<Rightarrow> real" where
  "polyval p x = foldl (\<lambda>y pv. y * x + pv) 0 p"

definition dot :: "real list list \<Rightarrow> real list \<Rightarrow> real list" where
  "dot a b = map (\<lambda>row. sum_list (map2 (*) row b)) a"

definition del_at :: "nat \<Rightarrow> 'a list \<Rightarrow> 'a list" where
  "del_at k xs = take k xs @ drop (Suc k) xs"

definition minor_matrix :: "real list list \<Rightarrow> nat \<Rightarrow> nat \<Rightarrow> real list list" where
  "minor_matrix m i j = map (del_at j) (del_at i m)"

fun det :: "nat \<Rightarrow> real list list \<Rightarrow> real" where
  "det 0 m = 1"
| "det (Suc n) m =
     sum_list (map (\<lambda>j. (- 1) ^ j * (m ! 0 ! j) * det n (minor_matrix m 0 j)) [0..<Suc n])"

definition linalg_inv :: "real list list \<Rightarrow> error + real list list" where
  "linalg_inv m =
     (let n = length m; d = det n m
      in if d = 0 then Inl LinAlgError
         else Inr (map (\<lambda>i. map (\<lambda>j. (- 1) ^ (i + j) * det (n - 1) (minor_matrix m j i) / d)
                              [0..<n]) [0..<n]))"

text \<open>
  \<open>cubic_polynomial_trajectory\<close>. The step count is a Python int; \<open>np.linspace\<close> raises
  ValueError on a negative number of samples.
\<close>

definition cubic_polynomial_trajectory :: "real \<Rightarrow> real \<Rightarrow> int \<Rightarrow> error + real list" where
  "cubic_polynomial_trajectory p0 p1 step =
     (if step < 0 then Inl ValueError
      else
        let t0 = 0;
            tf = real_of_int step;
            t = linspace t0 tf (nat step);
            t0_2 = t0 * t0;
            t0_3 = t0_2 * t0;
            tf_2 = tf * tf;
            tf_3 = tf_2 * tf;
            m = [[1, t0, t0_2, t0_3],
                 [0, 1, 2 * t0, 3 * t0_2],
                 [1, tf, tf_2, tf_3],
                 [0, 1, 2 * tf, 3 * tf_2]];
            v0 = 0;
            v1 = 0;
            b = [p0, v0, p1, v1]
        in case linalg_inv m of
             Inl e \<Rightarrow> Inl e
           | Inr mi \<Rightarrow> Inr (map (polyval (rev (dot mi b))) t))"

text \<open>
  \<open>joint_space_trajectory\<close>. The loop over \<open>range(dof)\<close> reads \<open>start_pose[i]\<close> and
  \<open>stop_pose[i]\<close>, the latter raising IndexError when \<open>stop_pose\<close> is shorter; it yields one
  column per joint. \<open>np.zeros((step, dof))\<close> raises ValueError on a negative \<open>step\<close>. The
  grid is returned as its list of rows.
\<close>

fun trajectory_columns :: "real list \<Rightarrow> real list \<Rightarrow> int \<Rightarrow> error + real list list" where
  "trajectory_columns [] stop_pose step = Inr []"
| "trajectory_columns (p0 # start_pose) [] step = Inl IndexError"
| "trajectory_columns (p0 # start_pose) (p1 # stop_pose) step =
     (case cubic_polynomial_trajectory p0 p1 step of
        Inl e \<Rightarrow> Inl e
      | Inr t \<Rightarrow>
          (case trajectory_columns start_pose stop_pose step of
             Inl e \<Rightarrow> Inl e
           | Inr ts \<Rightarrow> Inr (t # ts)))"

definition joint_space_trajectory :: "real list \<Rightarrow> real list \<Rightarrow> int \<Rightarrow> error + real list list" where
  "joint_space_trajectory start_pose stop_pose step =
     (if step < 0 then Inl ValueError
      else case trajectory_columns start_pose stop_pose step of
             Inl e \<Rightarrow> Inl e
           | Inr cols \<Rightarrow> Inr (map (\<lambda>k. map (\<lambda>c. c ! k) cols) [0..<nat step]))"

text \<open>
  The cubic that the coefficients describe, and the sample times of a trajectory of
  \<open>step\<close> steps.
\<close>

definition cubic :: "real \<Rightarrow> real \<Rightarrow> real \<Rightarrow> real \<Rightarrow> real \<Rightarrow> real" where
  "cubic a0 a1 a2 a3 t = a0 + a1 * t + a2 * t ^ 2 + a3 * t ^ 3"

definition sample_times :: "int \<Rightarrow> real list" where
  "sample_times step = linspace 0 (real_of_int step) (nat step)"

text \<open>
  The two higher coefficients that solving the boundary conditions gives for a move from
  \<open>p0\<close> to \<open>p1\<close> in \<open>step\<close> steps (the lower two are \<open>p0\<close> and 0).
\<close>

definition coeff2 :: "real \<Rightarrow> real \<Rightarrow> int \<Rightarrow> real" where
  "coeff2 p0 p1 step = 3 * (p1 - p0) / (real_of_int step * real_of_int step)"

definition coeff3 :: "real \<Rightarrow> real \<Rightarrow> int \<Rightarrow> real" where
  "coeff3 p0 p1 step = - 2 * (p1 - p0) / (real_of_int step * real_of_int step * real_of_int step)"

section \<open>Numeric inverse kinematics\<close>

text \<open>
  \<open>scipy.optimize.dual_annealing\<close> is a library outside the repository, and is a parameter
  of the model. What the solver needs of it is how it talks to the objective: a search
  either finishes with its result \<open>r.x\<close>, or asks for the objective at a point and goes on
  according to the value it gets. Any optimizer that terminates, with its seed, iteration
  cap and callback fixed, is such a tree.
\<close>

datatype search = Finished "real list" | Evaluate "real list" "real \<Rightarrow> search"

text \<open>
  Indexing a numpy array with a list of booleans. \<open>a[state]\<close> copies the entries where
  the mask is true, and raises IndexError when the lengths differ; \<open>conf[state] = q\<close>
  overwrites those entries with the values of \<open>q\<close> in order, broadcasts a \<open>q\<close> of length 1,
  and raises ValueError for any other length.
\<close>

definition mask_select :: "'a list \<Rightarrow> bool list \<Rightarrow> error + 'a list" where
  "mask_select a state =
     (if length a \<noteq> length state then Inl IndexError
      else Inr (map fst (filter snd (zip a state))))"

fun mask_fill :: "real list \<Rightarrow> bool list \<Rightarrow> real list \<Rightarrow> real list" where
  "mask_fill (c # cs) (True # bs) (v # vs) = v # mask_fill cs bs vs"
| "mask_fill (c # cs) (b # bs) vs = c # mask_fill cs bs vs"
| "mask_fill cs bs vs = cs"

definition mask_assign :: "real list \<Rightarrow> bool list \<Rightarrow> real list \<Rightarrow> error + real list" where
  "mask_assign conf state q =
     (let n = length (filter id state)
      in if length q = n then Inr (mask_fill conf state q)
         else if length q = 1 then Inr (mask_fill conf state (replicate n (hd q)))
         else Inl ValueError)"

text \<open>\<open>H[0:3, 0:3] @ v\<close> and \<open>H[0:3, 3]\<close>.\<close>

definition m44_rotate :: "Matrix44 \<Rightarrow> Vector3 \<Rightarrow> Vector3" where
  "m44_rotate h v =
     Vector3 (c1 (row1 h) * vx v + c2 (row1 h) * vy v + c3 (row1 h) * vz v)
             (c1 (row2 h) * vx v + c2 (row2 h) * vy v + c3 (row2 h) * vz v)
             (c1 (row3 h) * vx v + c2 (row3 h) * vy v + c3 (row3 h) * vz v)"

definition m44_translation :: "Matrix44 \<Rightarrow> Vector3" where
  "m44_translation h = Vector3 (c4 (row1 h)) (c4 (row2 h)) (c4 (row3 h))"

text \<open>
  The variables that the closure \<open>opt\<close> shares with the solver: the chain \<open>ri\<close> (moved by
  every \<open>fkine\<close>), the array \<open>conf\<close> and \<open>best_result\<close>, which starts as \<open>np.inf\<close> (here
  None).
\<close>

record ik_vars =
  ri_of :: SerialManipulator
  conf_of :: "real list"
  best_result :: "real option"

text \<open>
  The squared error of a pose \<open>H\<close>. The two 6-vectors \<open>target_pose\<close> and \<open>current_pose\<close>
  are pairs of a position (entries 0 to 2) and a direction (entries 3 to 5).
\<close>

definition pose_error :: "Matrix44 \<Rightarrow> Vector3 \<times> Vector3 \<Rightarrow> Vector3 \<times> Vector3 \<Rightarrow> real" where
  "pose_error h target_pose current_pose =
     (let e1 = v3_sub (fst target_pose)
                 (v3_add (m44_rotate h (fst current_pose)) (m44_translation h));
          e2 = v3_sub (snd target_pose) (m44_rotate h (snd current_pose))
      in v3_dot e1 e1 + v3_dot e2 e2)"

text \<open>
  \<open>opt\<close>. The attribute \<open>tool_link\<close> of \<open>ri\<close> is not declared by \<open>SerialManipulator\<close> and is
  a parameter. The result is the cost, or the exception raised.
\<close>

definition opt ::
  "Matrix44 \<Rightarrow> Vector3 \<times> Vector3 \<Rightarrow> Vector3 \<times> Vector3 \<Rightarrow> bool list \<Rightarrow> real
     \<Rightarrow> ik_vars \<Rightarrow> real list \<Rightarrow> ik_vars \<times> (error + real)" where
  "opt tool_link target_pose current_pose state tolerance vars q =
     (case mask_assign (conf_of vars) state q of
        Inl e \<Rightarrow> (vars, Inl e)
      | Inr conf \<Rightarrow>
          (case fkine_default (ri_of vars) conf of
             (ri, Inl e) \<Rightarrow> (vars\<lparr>conf_of := conf, ri_of := ri\<rparr>, Inl e)
           | (ri, Inr f) \<Rightarrow>
               let h = matmul f tool_link;
                   err = pose_error h target_pose current_pose;
                   best = (case best_result vars of
                             None \<Rightarrow> Some err
                           | Some b \<Rightarrow> if err < b then Some err else Some b);
                   vars' = vars\<lparr>conf_of := conf, ri_of := ri, best_result := best\<rparr>
               in if err < tolerance then (vars', Inl StopOptimizingException)
                  else (vars', Inr err)))"

definition callback :: "real \<Rightarrow> real list \<Rightarrow> real \<Rightarrow> bool" where
  "callback tolerance x f = (if f < tolerance then True else False)"

text \<open>Running a search against an objective that shares variables and may raise.\<close>

primrec run_search ::
  "(ik_vars \<Rightarrow> real list \<Rightarrow> ik_vars \<times> (error + real)) \<Rightarrow> search \<Rightarrow> ik_vars
     \<Rightarrow> ik_vars \<times> (error + real list)" where
  "run_search f (Finished x) = (\<lambda>vars. (vars, Inr x))"
| "run_search f (Evaluate q k) =
     (\<lambda>vars. case f vars q of
                (vars', Inl e) \<Rightarrow> (vars', Inl e)
              | (vars', Inr err) \<Rightarrow> run_search f (k err) vars')"

text \<open>
  \<open>numeric_inverse_kinematics\<close>. The first call \<open>opt(q0)\<close> stands before the \<open>try\<close>, so what
  it raises leaves the function; inside the \<open>try\<close> only StopOptimizingException is
  caught. The chain is returned beside the result, since the search moves it.
\<close>

definition numeric_inverse_kinematics ::
  "((real \<times> real) list \<Rightarrow> real list \<Rightarrow> (real list \<Rightarrow> real \<Rightarrow> bool) \<Rightarrow> search) \<Rightarrow> Matrix44
     \<Rightarrow> SerialManipulator \<Rightarrow> Vector3 \<times> Vector3 \<Rightarrow> Vector3 \<times> Vector3 \<Rightarrow> (real \<times> real) list
     \<Rightarrow> real \<Rightarrow> SerialManipulator \<times> (error + real list)" where
  "numeric_inverse_kinematics dual_annealing tool_link ri target_pose current_pose bounds tol =
     (let tolerance = tol * tol;
          conf = configuration ri;
          state = map (\<lambda>l. \<not> locked l) (links ri)
      in case mask_select conf state of
           Inl e \<Rightarrow> (ri, Inl e)
         | Inr q0 \<Rightarrow>
         (case mask_select bounds state of
           Inl e \<Rightarrow> (ri, Inl e)
         | Inr bounds' \<Rightarrow>
             let f = opt tool_link target_pose current_pose state tolerance;
                 vars = \<lparr> ri_of = ri, conf_of = conf, best_result = None \<rparr>
             in (case f vars q0 of
                  (vars1, Inl e) \<Rightarrow> (ri_of vars1, Inl e)
                | (vars1, Inr err) \<Rightarrow>
                    let vars2 = vars1\<lparr>best_result := Some err\<rparr>
                    in if err < tolerance then (ri_of vars2, Inr q0)
                       else
                         (case run_search f (dual_annealing bounds' q0 (callback tolerance))
                                 vars2 of
                            (vars3, Inr x) \<Rightarrow> (ri_of vars3, Inr x)
                          | (vars3, Inl e) \<Rightarrow>
                              if e = StopOptimizingException
                              then (ri_of vars3, Inr (conf_of vars3))
                              else (ri_of vars3, Inl e)))))"

text \<open>The results \<open>r.x\<close> that a search can finish with.\<close>

primrec results :: "search \<Rightarrow> real list set" where
  "results (Finished x) = {x}"
| "results (Evaluate q k) = (\<Union>e. results (k e))"

section \<open>Sequence\<close>

text \<open>
  Modelled from the spec: \<open>QtCore.QTimeLine\<close> belongs to Qt and is not among the sources.
  It holds a duration (a non-positive one is refused and the default of 1000 ms kept), a
  current time within \<open>[0, duration]\<close>, a frame range and a state. The current time maps
  to a frame index proportional to elapsed/duration; whenever setting the time changes
  the frame, the frame-changed signal calls the connected slot (\<open>animate\<close>) with the new
  frame; reaching the end while running stops the timeline. \<open>start()\<close> runs it from time 0,
  \<open>stop()\<close> makes it not running.
\<close>

datatype TimeLineState = NotRunning | Paused | Running

record QTimeLine =
  duration :: int
  currentTime :: int
  startFrame :: int
  endFrame :: int
  state :: TimeLineState

definition frameForTime :: "QTimeLine \<Rightarrow> int \<Rightarrow> int" where
  "frameForTime tline msec =
     startFrame tline + ((endFrame tline - startFrame tline) * msec) div duration tline"

text \<open>
  The fields of \<open>Sequence\<close>. The callback \<open>frames\<close> acts on something outside (the chain
  being drawn): \<open>scene\<close> is that, and \<open>frame_changed\<close> counts the emissions of the signal.
\<close>

record 'c Sequence =
  timeline :: QTimeLine
  trajectory :: "real list list"
  frames :: "real list \<Rightarrow> 'c \<Rightarrow> 'c"
  step :: int
  scene :: 'c
  frame_changed :: nat

text \<open>
  \<open>animate\<close>: \<open>self.trajectory[index, :]\<close> counts a negative index from the end and raises
  IndexError out of range.
\<close>

definition animate :: "'c Sequence \<Rightarrow> int \<Rightarrow> error + 'c Sequence" where
  "animate s index =
     (let n = int (length (trajectory s));
          j = (if index < 0 then n + index else index)
      in if 0 \<le> j \<and> j < n
         then Inr (s\<lparr>scene := frames s (trajectory s ! nat j) (scene s),
                      frame_changed := frame_changed s + 1\<rparr>)
         else Inl IndexError)"

definition setCurrentTime :: "'c Sequence \<Rightarrow> int \<Rightarrow> error + 'c Sequence" where
  "setCurrentTime s msec =
     (let tline = timeline s;
          lastFrame = frameForTime tline (currentTime tline);
          t = max 0 (min msec (duration tline));
          tl1 = tline\<lparr>currentTime := t\<rparr>;
          currentFrame = frameForTime tl1 t;
          s1 = s\<lparr>timeline := tl1\<rparr>
      in case (if lastFrame \<noteq> currentFrame then animate s1 currentFrame else Inr s1) of
           Inl e \<Rightarrow> Inl e
         | Inr s2 \<Rightarrow>
             Inr (if t = duration tline \<and> state tline = Running
                  then s2\<lparr>timeline := (timeline s2)\<lparr>state := NotRunning\<rparr>\<rparr>
                  else s2))"

text \<open>
  \<open>Sequence.__init__\<close>: the time is set to the end before the slot is connected, so no
  frame is drawn yet.
\<close>

definition sequence_init ::
  "(real list \<Rightarrow> 'c \<Rightarrow> 'c) \<Rightarrow> real list \<Rightarrow> real list \<Rightarrow> int \<Rightarrow> int \<Rightarrow> 'c
     \<Rightarrow> error + 'c Sequence" where
  "sequence_init fr start_pose stop_pose dur stp sc =
     (let d = (if dur \<le> 0 then 1000 else dur)
      in case joint_space_trajectory start_pose stop_pose stp of
           Inl e \<Rightarrow> Inl e
         | Inr traj \<Rightarrow>
             Inr \<lparr> timeline = \<lparr> duration = d, currentTime = d, startFrame = 0,
                                endFrame = stp - 1, state = NotRunning \<rparr>,
                    trajectory = traj, frames = fr, step = stp, scene = sc,
                    frame_changed = 0 \<rparr>)"

definition start :: "'c Sequence \<Rightarrow> error + 'c Sequence" where
  "start s = setCurrentTime (s\<lparr>timeline := (timeline s)\<lparr>state := Running\<rparr>\<rparr>) 0"

text \<open>A tick of the scheduler with the elapsed time.\<close>

definition tick :: "'c Sequence \<Rightarrow> int \<Rightarrow> error + 'c Sequence" where
  "tick s elapsed = (if state (timeline s) = Running then setCurrentTime s elapsed else Inr s)"

definition stop :: "'c Sequence \<Rightarrow> error + 'c Sequence" where
  "stop s =
     (case (if currentTime (timeline s) < duration (timeline s)
            then setCurrentTime s (duration (timeline s)) else Inr s) of
        Inl e \<Rightarrow> Inl e
      | Inr s1 \<Rightarrow> Inr (s1\<lparr>timeline := (timeline s1)\<lparr>state := NotRunning\<rparr>\<rparr>))"

definition isRunning :: "'c Sequence \<Rightarrow> bool" where
  "isRunning s = (if state (timeline s) = Running then True else False)"

text \<open>
  What every sequence made by \<open>sequence_init\<close> and driven by \<open>start\<close>, \<open>tick\<close> and \<open>stop\<close>
  satisfies.
\<close>

definition sequence_ok :: "'c Sequence \<Rightarrow> bool" where
  "sequence_ok s \<longleftrightarrow>
     0 < duration (timeline s) \<and>
     0 \<le> currentTime (timeline s) \<and> currentTime (timeline s) \<le> duration (timeline s) \<and>
     startFrame (timeline s) = 0 \<and> endFrame (timeline s) = step s - 1 \<and>
     length (trajectory s) = nat (step s)"

definition current_frame :: "'c Sequence \<Rightarrow> int" where
  "current_frame s = frameForTime (timeline s) (currentTime (timeline s))"

section \<open>Example inputs\<close>

text \<open>
  A two-joint stage. The first joint slides along y, stands at offset 2 (default 1) and is
  locked; the second slides along x, stands at its default 0 and is free. The base has
  been moved 5 up from the default base.
\<close>

definition example_link_locked :: Link where
  "example_link_locked =
     \<lparr> joint_axis = Vector3 0 1 0, quaternion = identity, vector = Vector3 0 2 0,
       home = Vector3 0 0 0, type = Prismatic, lower_limit = Some (- 10),
       upper_limit = Some 10, default_offset = 1, set_point = 2, offset = 2,
       link_name = ''y'', locked = True, ignore_limits = True \<rparr>"

definition example_link_free :: Link where
  "example_link_free =
     \<lparr> joint_axis = Vector3 1 0 0, quaternion = identity, vector = Vector3 0 0 0,
       home = Vector3 0 0 0, type = Prismatic, lower_limit = Some (- 10),
       upper_limit = Some 10, default_offset = 0, set_point = 0, offset = 0,
       link_name = ''x'', locked = False, ignore_limits = False \<rparr>"

definition example_base :: Matrix44 where
  "example_base =
     Matrix44 (Vector4 1 0 0 0) (Vector4 0 1 0 0) (Vector4 0 0 1 5) (Vector4 0 0 0 1)"

definition example_chain :: SerialManipulator where
  "example_chain =
     \<lparr> name = ''stage'', links = [example_link_locked, example_link_free],
       base = example_base, default_base = m44_identity, tool = m44_identity \<rparr>"

text \<open>
  Inputs for the solver on the two-joint stage: the point at the tool origin with the
  direction z; a target where the stage stands (the base lifts it to height 5, the locked
  joint holds y at 2), one reached by sliding x to 1, and one out of reach (the height
  cannot change); bounds for both joints; and a search that tries the point 1 and returns
  it.
\<close>

definition example_current_pose :: "Vector3 \<times> Vector3" where
  "example_current_pose = (Vector3 0 0 0, Vector3 0 0 1)"

definition example_target_here :: "Vector3 \<times> Vector3" where
  "example_target_here = (Vector3 0 2 5, Vector3 0 0 1)"

definition example_target_near :: "Vector3 \<times> Vector3" where
  "example_target_near = (Vector3 1 2 5, Vector3 0 0 1)"

definition example_target_far :: "Vector3 \<times> Vector3" where
  "example_target_far = (Vector3 0 2 100, Vector3 0 0 1)"

definition example_bounds :: "(real \<times> real) list" where
  "example_bounds = [(- 10, 10), (- 10, 10)]"

definition example_annealing ::
  "(real \<times> real) list \<Rightarrow> real list \<Rightarrow> (real list \<Rightarrow> real \<Rightarrow> bool) \<Rightarrow> search" where
  "example_annealing bnds x0 cb = Evaluate [1] (\<lambda>f. Finished [1])"

text \<open>The stage with its free joint moved to \<open>x\<close>.\<close>

definition chain_at :: "real \<Rightarrow> SerialManipulator" where
  "chain_at x = example_chain\<lparr>links := [example_link_locked, move example_link_free x False True]\<rparr>"

text \<open>
  A sequence from \<open>[0]\<close> to \<open>[10]\<close> in 2 steps over 1000 ms, whose callback shows the row
  it is given, after \<open>start()\<close> and a tick at 300 ms: it is running and shows frame 0.
\<close>

definition example_sequence :: "real list Sequence" where
  "example_sequence =
     \<lparr> timeline = \<lparr> duration = 1000, currentTime = 300, startFrame = 0, endFrame = 1,
                      state = Running \<rparr>,
       trajectory = [[0], [10]], frames = (\<lambda>row shown. row), step = 2, scene = [0],
       frame_changed = 1 \<rparr>"

section \<open>Properties of the quaternion\<close>

lemma unit_norm_sq:
  assumes "magnitude q = 1"
  shows "qx q * qx q + qy q * qy q + qz q * qz q + qw q * qw q = 1"
proof -
  from assms have "sqrt (qx q * qx q + qy q * qy q + qz q * qz q + qw q * qw q) = 1"
    by (simp add: magnitude_def)
  then show ?thesis
    by (metis real_sqrt_eq_1_iff)
qed

lemma magnitude_conjugate: "magnitude (conjugate q) = magnitude q"
  by (simp add: magnitude_def conjugate_def)

lemma q_inverse_unit:
  assumes "magnitude q = 1"
  shows "q_inverse q = conjugate q"
proof -
  have "magnitude (conjugate q) = 1"
    using assms by (simp add: magnitude_conjugate)
  then have "normalize (conjugate q) = conjugate q"
    by (simp add: normalize_def Let_def)
  then show ?thesis
    by (simp add: q_inverse_def)
qed

lemma q_mul_inverse_unit:
  assumes "magnitude q = 1"
  shows "q_mul q (q_inverse q) = identity"
proof -
  obtain w x y z where q: "q = Quaternion w x y z"
    by (cases q)
  have "x * x + y * y + z * z + w * w = 1"
    using unit_norm_sq [OF assms] by (simp add: q)
  then have "w * w + (x * x + y * y + z * z) = 1"
    by simp
  moreover have "q_inverse (Quaternion w x y z) = conjugate (Quaternion w x y z)"
    using q_inverse_unit [OF assms] by (simp add: q)
  ultimately show ?thesis
    by (simp add: q q_mul_def Let_def axis_def conjugate_def
        v3_dot_def v3_add_def v3_scale_def v3_cross_def identity_def algebra_simps)
qed

text \<open>
  C8. For a unit quaternion \<open>q\<close>, the Hamilton product of \<open>q\<close> with \<open>inverse(q)\<close> (the
  conjugate, normalized) is the identity rotation \<open>(1, 0, 0, 0)\<close>: exactly so over the
  reals, and therefore within \<open>1e-5\<close> in each component.
\<close>

theorem compose_inverse_identity:
  "magnitude q = 1 \<Longrightarrow>
     q_mul q (q_inverse q) = identity \<and>
     is_close (q_mul q (q_inverse q)) identity (1 / 100000)"
  by (simp add: q_mul_inverse_unit is_close_def)

theorem compose_inverse_identity_witness:
  "magnitude (Quaternion (3 / 5) (4 / 5) 0 0) = 1 \<and>
   q_mul (Quaternion (3 / 5) (4 / 5) 0 0) (q_inverse (Quaternion (3 / 5) (4 / 5) 0 0))
     = identity \<and>
   is_close (q_mul (Quaternion (3 / 5) (4 / 5) 0 0)
               (q_inverse (Quaternion (3 / 5) (4 / 5) 0 0))) identity (1 / 100000)"
proof -
  have h: "magnitude (Quaternion (3 / 5) (4 / 5) 0 0) = 1"
    by (simp add: magnitude_def)
  show ?thesis
    using h compose_inverse_identity [OF h] by blast
qed

text \<open>
  C10. The claim is that \<open>toAxisAngle\<close> never reaches the division with \<open>s = 0\<close> on a unit
  quaternion. At the unit quaternion \<open>(-1, 0, 0, 0)\<close> the angle is \<open>2 * pi\<close>, which is not
  below \<open>eps\<close>, and \<open>s = sqrt (1 - 1) = 0\<close>: the division is reached with a zero divisor.
\<close>

theorem toAxisAngle_minus_one_divides_by_zero:
  "magnitude (Quaternion (- 1) 0 0 0) = 1 \<and>
   toAxisAngle (Quaternion (- 1) 0 0 0) = Inl ZeroDivisor"
proof -
  have "\<not> 2 * pi < eps"
    using pi_ge_two by (simp add: eps_def)
  then show ?thesis
    by (simp add: magnitude_def toAxisAngle_def Let_def)
qed

text \<open>
  Away from \<open>w = -1\<close> the guard does its work: a unit quaternion with \<open>w \<noteq> -1\<close> gets an
  axis and an angle.
\<close>

lemma toAxisAngle_returns:
  assumes "magnitude q = 1" and "qw q \<noteq> - 1"
  shows "\<exists>r. toAxisAngle q = Inr r"
proof -
  have n: "qx q * qx q + qy q * qy q + qz q * qz q + qw q * qw q = 1"
    using unit_norm_sq [OF assms(1)] .
  have "0 \<le> qx q * qx q + qy q * qy q + qz q * qz q"
    by simp
  with n have sq: "qw q * qw q \<le> 1"
    by linarith
  then have "\<bar>qw q\<bar> \<le> 1"
    by (metis abs_le_square_iff abs_one mult_1 power2_eq_square)
  then have b: "- 1 \<le> qw q" "qw q \<le> 1"
    by linarith+
  show ?thesis
  proof (cases "2 * arccos (qw q) < eps")
    case True
    then show ?thesis
      using b sq by (simp add: toAxisAngle_def Let_def)
  next
    case False
    have "qw q \<noteq> 1"
    proof
      assume "qw q = 1"
      then have "2 * arccos (qw q) = 0" by simp
      with False show False by (simp add: eps_def)
    qed
    with b assms(2) have "- 1 < qw q" "qw q < 1"
      by linarith+
    then have "\<bar>qw q\<bar> < 1"
      by linarith
    then have "qw q * qw q < 1"
      by (metis abs_mult_self_eq mult_1 mult_strict_mono' abs_ge_zero)
    then have "sqrt (1 - qw q * qw q) \<noteq> 0"
      by simp
    then show ?thesis
      using b sq False by (simp add: toAxisAngle_def Let_def)
  qed
qed

text \<open>
  C7, as claimed: \<open>fromMatrix\<close> takes the branch whose \<open>t\<close> is the largest of the four.
  It does not: for the rotation matrix \<open>example_rotation\<close> the largest of m11, m22, m33 and
  the trace is the trace (\<open>t = 144/81\<close>), and the code takes the m11 branch (\<open>t = 100/81\<close>),
  because \<open>m33 < eps\<close> is tested first.
\<close>

theorem fromMatrix_not_largest:
  "is_rotation example_rotation \<and>
   fst (fromMatrix_tq example_rotation) = 100 / 81 \<and>
   largest_t example_rotation = 144 / 81 \<and>
   fst (fromMatrix_tq example_rotation) \<noteq> largest_t example_rotation"
  by (simp add: example_rotation_def is_rotation_def fromMatrix_tq_def largest_t_def
      t_candidates_def Let_def eps_def)

lemma example_rotation_toMatrix:
  "example_rotation = toMatrix (Quaternion (6 / 9) (5 / 9) (4 / 9) (2 / 9))"
  by (simp add: example_rotation_def toMatrix_def Let_def)

lemma rotation_diagonal_le_one:
  assumes "is_rotation m"
  shows "m11 m \<le> 1" and "m22 m \<le> 1" and "m33 m \<le> 1"
    and "- 1 \<le> m11 m" and "- 1 \<le> m22 m" and "- 1 \<le> m33 m"
proof -
  have sq: "\<bar>a\<bar> \<le> 1" if "a * a + b * b + c * c = 1" for a b c :: real
  proof -
    have "0 \<le> b * b + c * c"
      by simp
    with that have "a * a \<le> 1"
      by linarith
    then show ?thesis
      by (metis abs_le_square_iff abs_one mult_1 power2_eq_square)
  qed
  from assms have r1: "m11 m * m11 m + m12 m * m12 m + m13 m * m13 m = 1"
    and r2: "m22 m * m22 m + m21 m * m21 m + m23 m * m23 m = 1"
    and r3: "m33 m * m33 m + m31 m * m31 m + m32 m * m32 m = 1"
    by (simp_all add: is_rotation_def)
  from sq [OF r1] show "m11 m \<le> 1" and "- 1 \<le> m11 m"
    by linarith+
  from sq [OF r2] show "m22 m \<le> 1" and "- 1 \<le> m22 m"
    by linarith+
  from sq [OF r3] show "m33 m \<le> 1" and "- 1 \<le> m33 m"
    by linarith+
qed

text \<open>
  C7, amended. For every rotation matrix, \<open>fromMatrix\<close> chooses between the m11 and m22
  branches when \<open>m33 < eps\<close> and between the m33 and trace branches otherwise, and takes
  the larger \<open>t\<close> of the chosen pair. That \<open>t\<close> is greater than \<open>1 - eps\<close> and at most 4, so
  the square root is taken of a positive number bounded away from zero, the division
  never has a zero divisor, and a quaternion is returned.
\<close>

theorem fromMatrix_t_bounded:
  assumes "is_rotation m"
  shows "1 - eps < fst (fromMatrix_tq m) \<and> fst (fromMatrix_tq m) \<le> 4 \<and>
   fst (fromMatrix_tq m) =
     (if m33 m < eps
      then max (1 + m11 m - m22 m - m33 m) (1 - m11 m + m22 m - m33 m)
      else max (1 - m11 m - m22 m + m33 m) (1 + m11 m + m22 m + m33 m)) \<and>
   (\<exists>q. fromMatrix m = Inr q)"
proof -
  note d = rotation_diagonal_le_one [OF assms]
  have b: "1 - eps < fst (fromMatrix_tq m)"
    by (simp add: fromMatrix_tq_def Let_def eps_def)
  have u: "fst (fromMatrix_tq m) \<le> 4"
    using d by (simp add: fromMatrix_tq_def Let_def)
  have s: "fst (fromMatrix_tq m) =
     (if m33 m < eps
      then max (1 + m11 m - m22 m - m33 m) (1 - m11 m + m22 m - m33 m)
      else max (1 - m11 m - m22 m + m33 m) (1 + m11 m + m22 m + m33 m))"
    by (simp add: fromMatrix_tq_def Let_def max_def)
  obtain t q where tq: "fromMatrix_tq m = (t, q)"
    by (cases "fromMatrix_tq m")
  have len: "length q = 4"
    using tq by (auto simp: fromMatrix_tq_def Let_def split: if_splits)
  have pos: "0 < t"
    using b tq by (simp add: eps_def)
  obtain x0 x1 x2 x3 where q: "q = [x0, x1, x2, x3]"
    using len by (auto simp: length_Suc_conv numeral_eq_Suc)
  have "\<exists>r. fromMatrix m = Inr r"
    using pos by (simp add: fromMatrix_def tq q)
  with b u s show ?thesis
    by blast
qed

theorem fromMatrix_t_bounded_witness:
  "is_rotation example_rotation \<and>
   1 - eps < fst (fromMatrix_tq example_rotation) \<and>
   fst (fromMatrix_tq example_rotation) \<le> 4 \<and>
   (\<exists>q. fromMatrix example_rotation = Inr q)"
proof -
  have h: "is_rotation example_rotation"
    by (simp add: example_rotation_def is_rotation_def)
  show ?thesis
    using h fromMatrix_t_bounded [OF h] by blast
qed

section \<open>Properties of the link and the chain\<close>

text \<open>
  The two example joints are what the constructor gives, the locked one after a move to
  offset 2 and the setting of its flags.
\<close>

lemma example_link_free_constructed:
  "link_init (Vector3 1 0 0) (Vector3 0 0 0) Prismatic 0 (Some 10) (Some (- 10)) ''x''
     = Inr example_link_free"
  by (simp add: link_init_def v3_length_def link_reset_def move_def Let_def fromAxisAngle_def
      v3_normalized_def v3_div_def v3_scale_def v3_add_def identity_def example_link_free_def)

lemma example_link_locked_constructed:
  "map_sum id (\<lambda>l. (move l 2 False True)\<lparr>locked := True, ignore_limits := True\<rparr>)
     (link_init (Vector3 0 1 0) (Vector3 0 0 0) Prismatic 1 (Some 10) (Some (- 10)) ''y'')
     = Inr example_link_locked"
  by (simp add: link_init_def v3_length_def link_reset_def move_def Let_def fromAxisAngle_def
      v3_normalized_def v3_div_def v3_scale_def v3_add_def identity_def example_link_locked_def)

text \<open>
  C4. On a locked joint, \<open>move\<close> without \<open>ignore_locks\<close> returns the joint as it was (no
  error, every field unchanged). With \<open>ignore_locks\<close> it stores the offset, stores the
  set-point only when \<open>setpoint\<close> is true, and recomputes the local pose: a revolute joint
  gets the rotation about its axis and the rotated home point, a prismatic joint keeps its
  rotation and gets \<open>home + axis * offset\<close>.
\<close>

theorem move_locked:
  "locked l \<Longrightarrow>
     move l off False sp = l \<and>
     offset (move l off True sp) = off \<and>
     set_point (move l off True sp) = (if sp then off else set_point l) \<and>
     quaternion (move l off True sp) =
       (if type l = Revolute then fromAxisAngle (joint_axis l) off else quaternion l) \<and>
     vector (move l off True sp) =
       (if type l = Revolute then rotate (fromAxisAngle (joint_axis l) off) (home l)
        else v3_add (home l) (v3_scale (joint_axis l) off))"
  by (simp add: move_def Let_def)

theorem move_locked_witness:
  "locked example_link_locked \<and>
   move example_link_locked 5 False True = example_link_locked \<and>
   offset (move example_link_locked 5 True False) = 5 \<and>
   set_point (move example_link_locked 5 True False) = 2 \<and>
   set_point (move example_link_locked 5 True True) = 5 \<and>
   vector (move example_link_locked 5 True False) = Vector3 0 5 0"
proof -
  have h: "locked example_link_locked"
    by (simp add: example_link_locked_def)
  show ?thesis
    using h move_locked [OF h, of 5 True] move_locked [OF h, of 5 False]
    by (simp add: example_link_locked_def v3_add_def v3_scale_def)
qed

lemma link_reset_fields:
  "offset (link_reset l) = default_offset l \<and> set_point (link_reset l) = default_offset l \<and>
   default_offset (link_reset l) = default_offset l"
  by (simp add: link_reset_def move_def Let_def)

text \<open>
  C5. After \<open>reset()\<close> the base is the default base, and every joint, locked before or
  not, has offset and set-point equal to its default offset and both flags cleared.
\<close>

theorem reset_restores_defaults:
  "base (reset ri) = default_base ri \<and>
   length (links (reset ri)) = length (links ri) \<and>
   (\<forall>i < length (links ri).
      offset (links (reset ri) ! i) = default_offset (links ri ! i) \<and>
      set_point (links (reset ri) ! i) = default_offset (links ri ! i) \<and>
      default_offset (links (reset ri) ! i) = default_offset (links ri ! i) \<and>
      \<not> locked (links (reset ri) ! i) \<and>
      \<not> ignore_limits (links (reset ri) ! i))"
  by (simp add: reset_def Let_def link_reset_fields)

theorem reset_restores_defaults_witness:
  "0 < length (links example_chain) \<and>
   locked (links example_chain ! 0) \<and> offset (links example_chain ! 0) = 2 \<and>
   base example_chain \<noteq> default_base example_chain \<and>
   base (reset example_chain) = m44_identity \<and>
   offset (links (reset example_chain) ! 0) = 1 \<and>
   set_point (links (reset example_chain) ! 0) = 1 \<and>
   \<not> locked (links (reset example_chain) ! 0) \<and>
   \<not> ignore_limits (links (reset example_chain) ! 0)"
  using reset_restores_defaults [of example_chain]
  by (simp add: example_chain_def example_link_locked_def example_base_def m44_identity_def)









section \<open>Properties of the trajectory generator\<close>

lemma det3:
  "det (Suc (Suc (Suc 0))) [[a, b, c], [d, e, f], [g, h, i]] =
     a * (e * i - f * h) - b * (d * i - f * g) + c * (d * h - e * g)"
  by (simp add: minor_matrix_def del_at_def algebra_simps)

lemma dels:
  "del_at 0 [a, b, c, d] = [b, c, d]"
  "del_at (Suc 0) [a, b, c, d] = [a, c, d]"
  "del_at (Suc (Suc 0)) [a, b, c, d] = [a, b, d]"
  "del_at (Suc (Suc (Suc 0))) [a, b, c, d] = [a, b, c]"
  by (simp_all add: del_at_def)

lemma minors:
  "minor_matrix [r0, r1, r2, r3] 0 j = map (del_at j) [r1, r2, r3]"
  "minor_matrix [r0, r1, r2, r3] (Suc 0) j = map (del_at j) [r0, r2, r3]"
  "minor_matrix [r0, r1, r2, r3] (Suc (Suc 0)) j = map (del_at j) [r0, r1, r3]"
  "minor_matrix [r0, r1, r2, r3] (Suc (Suc (Suc 0))) j = map (del_at j) [r0, r1, r2]"
  by (simp_all add: minor_matrix_def del_at_def)

lemma det4:
  "det (Suc (Suc (Suc (Suc 0)))) [[a0, a1, a2, a3], r1, r2, r3] =
     a0 * det (Suc (Suc (Suc 0))) (map (del_at 0) [r1, r2, r3])
     - a1 * det (Suc (Suc (Suc 0))) (map (del_at (Suc 0)) [r1, r2, r3])
     + a2 * det (Suc (Suc (Suc 0))) (map (del_at (Suc (Suc 0))) [r1, r2, r3])
     - a3 * det (Suc (Suc (Suc 0))) (map (del_at (Suc (Suc (Suc 0)))) [r1, r2, r3])"
proof -
  have "det (Suc (Suc (Suc (Suc 0)))) m =
      sum_list (map (\<lambda>j. (- 1) ^ j * (m ! 0 ! j) * det (Suc (Suc (Suc 0))) (minor_matrix m 0 j))
        [0, Suc 0, Suc (Suc 0), Suc (Suc (Suc 0))])" for m
    by (simp only: det.simps upt_rec [of 0 "Suc (Suc (Suc (Suc 0)))"]
        upt_rec [of "Suc 0" "Suc (Suc (Suc (Suc 0)))"]
        upt_rec [of "Suc (Suc 0)" "Suc (Suc (Suc (Suc 0)))"]
        upt_rec [of "Suc (Suc (Suc 0))" "Suc (Suc (Suc (Suc 0)))"]
        upt_rec [of "Suc (Suc (Suc (Suc 0)))" "Suc (Suc (Suc (Suc 0)))"]) simp
  then show ?thesis
    by (simp add: minors del: det.simps)
qed

lemma det_cubic:
  "det (Suc (Suc (Suc (Suc 0))))
     [[1, 0, 0, 0], [0, 1, 0, 0], [1, tf, tf * tf, tf * tf * tf], [0, 1, 2 * tf, 3 * (tf * tf)]]
     = tf * tf * tf * tf"
  by (simp add: det4 dels det3 del: det.simps)

lemma inv_cubic:
  assumes "tf \<noteq> 0"
  shows "linalg_inv [[1, 0, 0, 0], [0, 1, 0, 0], [1, tf, tf * tf, tf * tf * tf], [0, 1, 2 * tf, 3 * (tf * tf)]] =
     Inr [[1, 0, 0, 0], [0, 1, 0, 0],
          [- 3 / (tf * tf), - 2 / tf, 3 / (tf * tf), - 1 / tf],
          [2 / (tf * tf * tf), 1 / (tf * tf), - 2 / (tf * tf * tf), 1 / (tf * tf)]]"
  using assms
  by (simp add: linalg_inv_def Let_def det_cubic minors dels det3 del: det.simps)

lemma inv_singular:
  "linalg_inv [[1, 0, 0, 0], [0, 1, 0, 0], [1, 0, 0, 0], [0, 1, 0, 0]] = Inl LinAlgError"
  by (simp add: linalg_inv_def Let_def det4 dels det3 del: det.simps)

lemma cubic_polynomial_trajectory_eq:
  assumes "1 \<le> steps"
  shows "cubic_polynomial_trajectory p0 p1 steps =
     Inr (map (cubic p0 0 (coeff2 p0 p1 steps) (coeff3 p0 p1 steps)) (sample_times steps))"
proof -
  have tf: "real_of_int steps \<noteq> 0"
    using assms by simp
  have "polyval (rev (dot [[1, 0, 0, 0], [0, 1, 0, 0],
          [- 3 / (real_of_int steps * real_of_int steps), - 2 / real_of_int steps, 3 / (real_of_int steps * real_of_int steps), - 1 / real_of_int steps],
          [2 / (real_of_int steps * real_of_int steps * real_of_int steps), 1 / (real_of_int steps * real_of_int steps), - 2 / (real_of_int steps * real_of_int steps * real_of_int steps), 1 / (real_of_int steps * real_of_int steps)]] [p0, 0, p1, 0])) t
        = cubic p0 0 (coeff2 p0 p1 steps) (coeff3 p0 p1 steps) t" for t
    using tf
    by (simp add: dot_def polyval_def cubic_def coeff2_def coeff3_def power2_eq_square
        power3_eq_cube field_simps)
  then show ?thesis
    using assms by (simp add: cubic_polynomial_trajectory_def Let_def inv_cubic [OF tf]
        sample_times_def)
qed


lemma sample_times_first: "2 \<le> steps \<Longrightarrow> sample_times steps ! 0 = 0"
  by (simp add: sample_times_def linspace_def nth_list_update)







lemma trajectory_columns_eq:
  assumes "length start_pose = length stop_pose" and "1 \<le> steps"
  shows "trajectory_columns start_pose stop_pose steps =
     Inr (map (\<lambda>(p0, p1). map (cubic p0 0 (coeff2 p0 p1 steps) (coeff3 p0 p1 steps))
                              (sample_times steps)) (zip start_pose stop_pose))"
  using assms
  by (induction start_pose stop_pose rule: list_induct2)
     (simp_all add: cubic_polynomial_trajectory_eq)





section \<open>Properties of the inverse kinematics solver\<close>

lemma length_mask_fill: "length (mask_fill cs bs vs) = length cs"
  by (induction cs bs vs rule: mask_fill.induct) simp_all

lemma mask_fill_unmasked:
  "i < length cs \<Longrightarrow> i < length bs \<Longrightarrow> \<not> bs ! i \<Longrightarrow> mask_fill cs bs vs ! i = cs ! i"
  by (induction cs bs vs arbitrary: i rule: mask_fill.induct)
     (auto simp: nth_Cons split: nat.splits)

lemma mask_fill_select:
  "length cs = length bs \<Longrightarrow> mask_fill cs bs (map fst (filter snd (zip cs bs))) = cs"
proof (induction cs bs rule: list_induct2)
  case Nil
  then show ?case by simp
next
  case (Cons c cs b bs)
  then show ?case by (cases b) simp_all
qed

lemma length_select:
  "length cs = length bs \<Longrightarrow> length (filter snd (zip cs bs)) = length (filter id bs)"
  by (induction cs bs rule: list_induct2) simp_all

lemma mask_assign_select:
  "length cs = length bs \<Longrightarrow> mask_assign cs bs (map fst (filter snd (zip cs bs))) = Inr cs"
  by (simp add: mask_assign_def Let_def length_select mask_fill_select)

text \<open>
  In general: whenever the cost at the current configuration is below the squared
  tolerance, the solver raises.
\<close>

lemma nik_raises_when_already_there:
  assumes b: "length bounds = length (links ri)"
    and f: "fkine_default ri (configuration ri) = (ri', Inr f)"
    and e: "pose_error (matmul f tool_link) target_pose current_pose < tol * tol"
  shows "snd (numeric_inverse_kinematics da tool_link ri target_pose current_pose bounds tol)
           = Inl StopOptimizingException"
proof -
  define st where "st = map (\<lambda>l. \<not> locked l) (links ri)"
  have l: "length (configuration ri) = length st"
    by (simp add: configuration_def st_def)
  have o: "snd (opt tool_link target_pose current_pose st (tol * tol)
             \<lparr> ri_of = ri, conf_of = configuration ri, best_result = None \<rparr>
             (map fst (filter snd (zip (configuration ri) st)))) = Inl StopOptimizingException"
    using e by (simp add: opt_def mask_assign_select [OF l] f Let_def)
  obtain v r where vr: "opt tool_link target_pose current_pose st (tol * tol)
             \<lparr> ri_of = ri, conf_of = configuration ri, best_result = None \<rparr>
             (map fst (filter snd (zip (configuration ri) st))) = (v, r)"
    by (cases "opt tool_link target_pose current_pose st (tol * tol)
             \<lparr> ri_of = ri, conf_of = configuration ri, best_result = None \<rparr>
             (map fst (filter snd (zip (configuration ri) st)))")
  with o have r: "r = Inl StopOptimizingException"
    by simp
  have l': "length (links ri) = length st"
    by (simp add: st_def)
  show ?thesis
    using b l l' vr r
    by (simp add: numeric_inverse_kinematics_def Let_def mask_select_def st_def [symmetric])
qed

lemma opt_conf:
  assumes "opt tlink tp cp st tol vars q = (vars', r)"
  shows "length (conf_of vars') = length (conf_of vars) \<and>
         (\<forall>i. i < length (conf_of vars) \<longrightarrow> i < length st \<longrightarrow> \<not> st ! i \<longrightarrow>
              conf_of vars' ! i = conf_of vars ! i)"
  using assms
  by (auto simp: opt_def mask_assign_def Let_def length_mask_fill mask_fill_unmasked
      split: sum.splits prod.splits if_splits)

lemma run_search_conf:
  assumes "run_search (opt tlink tp cp st tol) srch vars = (vars', r)"
  shows "length (conf_of vars') = length (conf_of vars) \<and>
         (\<forall>i. i < length (conf_of vars) \<longrightarrow> i < length st \<longrightarrow> \<not> st ! i \<longrightarrow>
              conf_of vars' ! i = conf_of vars ! i)"
  using assms
proof (induction srch arbitrary: vars)
  case (Finished x)
  then show ?case by simp
next
  case (Evaluate q k)
  obtain v1 r1 where o: "opt tlink tp cp st tol vars q = (v1, r1)"
    by (cases "opt tlink tp cp st tol vars q")
  note c1 = opt_conf [OF o]
  show ?case
  proof (cases r1)
    case (Inl e)
    with Evaluate.prems o have "vars' = v1" by simp
    with c1 show ?thesis by simp
  next
    case (Inr err)
    with Evaluate.prems o have "run_search (opt tlink tp cp st tol) (k err) v1 = (vars', r)"
      by simp
    from Evaluate.IH [OF _ this] have
      "length (conf_of vars') = length (conf_of v1) \<and>
         (\<forall>i. i < length (conf_of v1) \<longrightarrow> i < length st \<longrightarrow> \<not> st ! i \<longrightarrow>
              conf_of vars' ! i = conf_of v1 ! i)"
      by blast
    with c1 show ?thesis by simp
  qed
qed

lemma run_search_result:
  "run_search f srch vars = (vars', Inr x) \<Longrightarrow> x \<in> results srch"
proof (induction srch arbitrary: vars)
  case (Finished y)
  then show ?case by simp
next
  case (Evaluate q k)
  obtain v1 r1 where o: "f vars q = (v1, r1)"
    by (cases "f vars q")
  show ?case
  proof (cases r1)
    case (Inl e)
    with Evaluate.prems o show ?thesis by simp
  next
    case (Inr err)
    with Evaluate.prems o have "run_search f (k err) v1 = (vars', Inr x)"
      by simp
    from Evaluate.IH [OF _ this] have "x \<in> results (k err)"
      by blast
    then show ?thesis by auto
  qed
qed

lemma opt_not_below:
  "opt tlink tp cp st tol vars q = (vars', Inr err) \<Longrightarrow> \<not> err < tol"
  by (auto simp: opt_def Let_def split: sum.splits prod.splits if_splits)

text \<open>
  In general: what the solver returns is either a result of the search, as long as the
  search is, or the array \<open>conf\<close>, with one entry per joint and the locked joints at
  their offsets.
\<close>

lemma nik_result_forms:
  assumes run: "numeric_inverse_kinematics da tlink ri tp cp bounds tol = (ri', Inr x)"
  shows "(\<exists>bounds' q0. mask_select bounds (map (\<lambda>l. \<not> locked l) (links ri)) = Inr bounds' \<and>
            mask_select (configuration ri) (map (\<lambda>l. \<not> locked l) (links ri)) = Inr q0 \<and>
            x \<in> results (da bounds' q0 (callback (tol * tol)))) \<or>
         (length x = length (links ri) \<and>
          (\<forall>i < length (links ri). locked (links ri ! i) \<longrightarrow> x ! i = offset (links ri ! i)))"
proof -
  define st where "st = map (\<lambda>l. \<not> locked l) (links ri)"
  define f where "f = opt tlink tp cp st (tol * tol)"
  define vars0 where "vars0 = \<lparr> ri_of = ri, conf_of = configuration ri, best_result = None \<rparr>"
  obtain q0 where q0: "mask_select (configuration ri) st = Inr q0"
    by (simp add: mask_select_def st_def configuration_def)
  obtain bounds' where bs: "mask_select bounds st = Inr bounds'"
    using run q0
    by (cases "mask_select bounds st")
       (simp_all add: numeric_inverse_kinematics_def Let_def st_def [symmetric])
  obtain v1 r1 where o1: "f vars0 q0 = (v1, r1)"
    by (cases "f vars0 q0")
  from run q0 bs o1 obtain err where r1: "r1 = Inr err"
    by (cases r1)
       (simp_all add: numeric_inverse_kinematics_def Let_def st_def [symmetric]
         f_def [symmetric] vars0_def [symmetric])
  have nb: "\<not> err < tol * tol"
    using o1 r1 opt_not_below [of tlink tp cp st "tol * tol" vars0 q0 v1 err]
    by (simp add: f_def)
  define v2 where "v2 = v1\<lparr>best_result := Some err\<rparr>"
  obtain v3 r3 where o3: "run_search f (da bounds' q0 (callback (tol * tol))) v2 = (v3, r3)"
    by (cases "run_search f (da bounds' q0 (callback (tol * tol))) v2")
  have c1: "length (conf_of v1) = length (conf_of vars0) \<and>
      (\<forall>i. i < length (conf_of vars0) \<longrightarrow> i < length st \<longrightarrow> \<not> st ! i \<longrightarrow>
         conf_of v1 ! i = conf_of vars0 ! i)"
    using opt_conf [of tlink tp cp st "tol * tol" vars0 q0 v1 r1] o1 by (simp add: f_def)
  have c3: "length (conf_of v3) = length (conf_of v2) \<and>
      (\<forall>i. i < length (conf_of v2) \<longrightarrow> i < length st \<longrightarrow> \<not> st ! i \<longrightarrow>
         conf_of v3 ! i = conf_of v2 ! i)"
    using run_search_conf [of tlink tp cp st "tol * tol" _ v2 v3 r3] o3 by (simp add: f_def)
  have full: "length (conf_of v3) = length (links ri) \<and>
      (\<forall>i < length (links ri). locked (links ri ! i) \<longrightarrow> conf_of v3 ! i = offset (links ri ! i))"
    using c1 c3 by (simp add: v2_def vars0_def configuration_def st_def)
  show ?thesis
  proof (cases r3)
    case (Inr y)
    with run q0 bs o1 r1 nb o3 have "x = y"
      by (simp add: numeric_inverse_kinematics_def Let_def st_def [symmetric]
         f_def [symmetric] vars0_def [symmetric] v2_def [symmetric])
    moreover from o3 Inr have "y \<in> results (da bounds' q0 (callback (tol * tol)))"
      using run_search_result by blast
    ultimately show ?thesis
      using q0 bs by (auto simp: st_def)
  next
    case (Inl e)
    with run q0 bs o1 r1 nb o3 have "x = conf_of v3"
      by (simp add: numeric_inverse_kinematics_def Let_def st_def [symmetric]
         f_def [symmetric] vars0_def [symmetric] v2_def [symmetric] split: if_splits)
    with full show ?thesis
      by blast
  qed
qed

lemma q_inverse_identity: "q_inverse identity = identity"
  by (simp add: q_inverse_def normalize_def conjugate_def identity_def magnitude_def Let_def)

lemma q_mul_identity: "q_mul identity identity = identity"
  by (simp add: q_mul_def identity_def Let_def axis_def v3_dot_def v3_add_def v3_scale_def v3_cross_def)

lemma rotate_identity: "rotate identity v = v"
  by (simp add: rotate_def q_inverse_identity Let_def)
     (simp add: q_mul_def identity_def Let_def axis_def v3_dot_def v3_add_def v3_scale_def v3_cross_def)

lemma qvp_mul_translations:
  "qvp_mul (QuaternionVectorPair identity a) (QuaternionVectorPair identity b) =
     QuaternionVectorPair identity (v3_add b a)"
  by (simp add: qvp_mul_def Let_def q_mul_identity rotate_identity)

lemma upto_0_1: "map nat [0..1] = [0, Suc 0]"
  by (simp add: upto.simps)

lemma chain_at_0: "chain_at 0 = example_chain"
  by (simp add: chain_at_def example_chain_def example_link_free_def move_def Let_def
      v3_add_def v3_scale_def)

lemma fkine_loop_chain_at:
  "fkine_loop [0, Suc 0] [2, x] False True (links (chain_at y)) qvp_identity =
     (links (chain_at x), Inr (QuaternionVectorPair identity (Vector3 x 2 0)))"
  by (simp add: chain_at_def example_link_locked_def example_link_free_def move_def Let_def
      quaterionVectorPair_def qvp_identity_def qvp_mul_translations v3_add_def v3_scale_def
      v3_zero_def)

lemma fkine_chain_at:
  "fkine_default (chain_at y) [2, x] =
     (chain_at x,
      Inr (Matrix44 (Vector4 1 0 0 x) (Vector4 0 1 0 2) (Vector4 0 0 1 5) (Vector4 0 0 0 1)))"
proof -
  have n: "numberOfLinks (chain_at y) = 2"
    by (simp add: numberOfLinks_def chain_at_def)
  have m: "matmul (matmul example_base
             (qvp_toMatrix (QuaternionVectorPair identity (Vector3 x 2 0)))) m44_identity =
           Matrix44 (Vector4 1 0 0 x) (Vector4 0 1 0 2) (Vector4 0 0 1 5) (Vector4 0 0 0 1)"
    by (simp add: qvp_toMatrix_def Let_def toMatrix_def identity_def example_base_def
      m44_identity_def matmul_def row_matmul_def m44_column_def v4_dot_def)
  have bt: "base (chain_at y) = example_base" "tool (chain_at y) = m44_identity"
    by (simp_all add: chain_at_def example_chain_def)
  have upd: "chain_at y\<lparr>links := links (chain_at x)\<rparr> = chain_at x"
    by (simp add: chain_at_def)
  show ?thesis
    by (simp add: fkine_default_def fkine_def Let_def n fkine_start_def fkine_end_def
        upto_0_1 fkine_loop_chain_at bt m upd del: fkine_loop.simps)
qed

lemma pose_error_chain:
  "pose_error (matmul (Matrix44 (Vector4 1 0 0 x) (Vector4 0 1 0 2) (Vector4 0 0 1 5)
       (Vector4 0 0 0 1)) m44_identity) (Vector3 a b c, Vector3 0 0 1) example_current_pose =
     (a - x) * (a - x) + (b - 2) * (b - 2) + (c - 5) * (c - 5)"
  by (simp add: pose_error_def Let_def example_current_pose_def m44_identity_def matmul_def
      row_matmul_def m44_column_def v4_dot_def m44_rotate_def m44_translation_def v3_sub_def
      v3_add_def v3_dot_def)

lemma state_chain_at: "map (\<lambda>l. \<not> locked l) (links (chain_at y)) = [False, True]"
  by (simp add: chain_at_def example_link_locked_def example_link_free_def move_def Let_def)

lemma configuration_chain_at: "configuration (chain_at y) = [2, y]"
  by (simp add: configuration_def chain_at_def example_link_locked_def example_link_free_def
      move_def Let_def)

lemma opt_chain_at:
  "opt m44_identity (Vector3 a b c, Vector3 0 0 1) example_current_pose [False, True] tolerance
       \<lparr> ri_of = chain_at y, conf_of = [2, y'], best_result = br \<rparr> [x] =
     (let err = (a - x) * (a - x) + (b - 2) * (b - 2) + (c - 5) * (c - 5)
      in (\<lparr> ri_of = chain_at x, conf_of = [2, x],
            best_result = (case br of None \<Rightarrow> Some err
                           | Some b' \<Rightarrow> if err < b' then Some err else Some b') \<rparr>,
          if err < tolerance then Inl StopOptimizingException else Inr err))"
  by (simp add: opt_def mask_assign_def Let_def fkine_chain_at pose_error_chain
      split: option.split)

text \<open>
  C1. The claim is that the solver returns normally when the cost at the current
  configuration is already below the squared tolerance. On the two-joint stage with the
  target where the stage stands, the cost is 0; the first call of \<open>opt\<close>, before the
  \<open>try\<close>, raises StopOptimizingException, and the exception leaves the solver, whatever
  the optimizer is.
\<close>

theorem numeric_inverse_kinematics_already_there_raises:
  "snd (numeric_inverse_kinematics da m44_identity example_chain example_target_here
          example_current_pose example_bounds (1 / 10)) = Inl StopOptimizingException"
  by (simp add: numeric_inverse_kinematics_def Let_def chain_at_0 [symmetric]
      state_chain_at configuration_chain_at mask_select_def example_bounds_def
      example_target_here_def opt_chain_at)

text \<open>
  C2. The claim is that every return path gives the whole configuration, free joints
  updated and locked joints as they were. On the two-joint stage, whose first joint is
  locked at 2, with a search that tries and returns the point 1: for a target out of
  reach the search finishes and the solver returns \<open>r.x = [1]\<close>, the free joint alone;
  for the target reached at 1 the exception is caught and the solver returns
  \<open>conf = [2, 1]\<close>.
\<close>

theorem numeric_inverse_kinematics_two_result_forms:
  "snd (numeric_inverse_kinematics example_annealing m44_identity example_chain
          example_target_far example_current_pose example_bounds (1 / 10)) = Inr [1] \<and>
   snd (numeric_inverse_kinematics example_annealing m44_identity example_chain
          example_target_near example_current_pose example_bounds (1 / 10)) = Inr [2, 1]"
  by (simp add: numeric_inverse_kinematics_def Let_def chain_at_0 [symmetric]
      state_chain_at configuration_chain_at mask_select_def example_bounds_def
      example_target_far_def example_target_near_def opt_chain_at example_annealing_def)

section \<open>Properties of the sequence\<close>

lemma animate_ok:
  assumes "0 \<le> index" and "index < int (length (trajectory s))"
  shows "animate s index =
     Inr (s\<lparr>scene := frames s (trajectory s ! nat index) (scene s),
            frame_changed := frame_changed s + 1\<rparr>)"
  using assms by (simp add: animate_def Let_def)

lemma not_final_frame:
  assumes ok: "sequence_ok s" and nf: "current_frame s < step s - 1"
  shows "currentTime (timeline s) < duration (timeline s) \<and> 2 \<le> step s"
proof -
  let ?d = "duration (timeline s)" and ?t = "currentTime (timeline s)" and ?n = "step s"
  from ok have d: "0 < ?d" and t: "0 \<le> ?t" "?t \<le> ?d"
    and fr: "startFrame (timeline s) = 0" "endFrame (timeline s) = ?n - 1"
    by (simp_all add: sequence_ok_def)
  from nf fr have lt: "((?n - 1) * ?t) div ?d < ?n - 1"
    by (simp add: current_frame_def frameForTime_def)
  have "?t \<noteq> ?d"
  proof
    assume "?t = ?d"
    with lt d show False by simp
  qed
  with t have t': "?t < ?d" by simp
  have "1 < ?n"
  proof (rule ccontr)
    assume "\<not> 1 < ?n"
    then have "?n - 1 \<le> 0" by simp
    then have "(?n - 1) * ?d \<le> (?n - 1) * ?t"
      using t(2) by (simp add: mult_left_mono_neg)
    then have "((?n - 1) * ?d) div ?d \<le> ((?n - 1) * ?t) div ?d"
      using d by (rule zdiv_mono1)
    with d lt show False by simp
  qed
  with t' show ?thesis by simp
qed

text \<open>
  C9. When \<open>stop()\<close> is called on a sequence whose current frame is not yet the final
  frame, the time is set to the end, so that the current frame becomes the final frame
  \<open>step - 1\<close>; the frame callback is called once, with the last row of the trajectory,
  and the frame-changed signal is emitted once; afterwards \<open>isRunning()\<close> is false.
\<close>

theorem stop_snaps_to_final_frame:
  assumes ok: "sequence_ok s" and nf: "current_frame s < step s - 1"
  shows "\<exists>s'. stop s = Inr s' \<and>
           currentTime (timeline s') = duration (timeline s') \<and>
           current_frame s' = step s - 1 \<and>
           scene s' = frames s (last (trajectory s)) (scene s) \<and>
           frame_changed s' = frame_changed s + 1 \<and>
           \<not> isRunning s' \<and> sequence_ok s'"
proof -
  let ?d = "duration (timeline s)" and ?t = "currentTime (timeline s)" and ?n = "step s"
  from ok have d: "0 < ?d" and fr: "startFrame (timeline s) = 0" "endFrame (timeline s) = ?n - 1"
    and len: "length (trajectory s) = nat ?n"
    by (simp_all add: sequence_ok_def)
  from not_final_frame [OF ok nf] have t: "?t < ?d" and n: "2 \<le> ?n"
    by simp_all
  define s1 where "s1 = s\<lparr>timeline := (timeline s)\<lparr>currentTime := ?d\<rparr>\<rparr>"
  have last_frame: "frameForTime (timeline s) ?t \<noteq> ?n - 1"
    using nf by (simp add: current_frame_def)
  have new_frame: "frameForTime ((timeline s)\<lparr>currentTime := ?d\<rparr>) ?d = ?n - 1"
    using d fr by (simp add: frameForTime_def)
  have "trajectory s \<noteq> []"
    using len n by auto
  moreover have "nat (?n - 1) = nat ?n - 1"
    using n by arith
  ultimately have lst: "trajectory s ! nat (?n - 1) = last (trajectory s)"
    using len by (simp add: last_conv_nth)
  have an: "animate s1 (?n - 1) =
      Inr (s1\<lparr>scene := frames s (last (trajectory s)) (scene s),
              frame_changed := frame_changed s + 1\<rparr>)"
    using animate_ok [of "?n - 1" s1] n len lst by (simp add: s1_def)
  have set: "setCurrentTime s ?d =
      Inr (let s2 = s1\<lparr>scene := frames s (last (trajectory s)) (scene s),
                       frame_changed := frame_changed s + 1\<rparr>
           in if state (timeline s) = Running
              then s2\<lparr>timeline := (timeline s2)\<lparr>state := NotRunning\<rparr>\<rparr> else s2)"
    using d last_frame new_frame an
    by (simp add: setCurrentTime_def Let_def s1_def [symmetric])
  define s' where "s' = s1\<lparr>scene := frames s (last (trajectory s)) (scene s),
                            frame_changed := frame_changed s + 1,
                            timeline := (timeline s1)\<lparr>state := NotRunning\<rparr>\<rparr>"
  have st: "stop s = Inr s'"
    using t by (simp add: stop_def set Let_def s'_def s1_def)
  have "currentTime (timeline s') = duration (timeline s')"
    by (simp add: s'_def s1_def)
  moreover have "current_frame s' = ?n - 1"
    using d fr by (simp add: current_frame_def frameForTime_def s'_def s1_def)
  moreover have "scene s' = frames s (last (trajectory s)) (scene s)"
    and "frame_changed s' = frame_changed s + 1" and "\<not> isRunning s'"
    by (simp_all add: s'_def s1_def isRunning_def)
  moreover have "sequence_ok s'"
    using ok by (simp add: sequence_ok_def s'_def s1_def)
  ultimately show ?thesis
    using st by blast
qed

theorem stop_snaps_to_final_frame_witness:
  "sequence_ok example_sequence \<and> current_frame example_sequence < step example_sequence - 1 \<and>
   isRunning example_sequence \<and>
   (\<exists>s'. stop example_sequence = Inr s' \<and> scene s' = [10] \<and> current_frame s' = 1 \<and>
      \<not> isRunning s')"
proof -
  have h1: "sequence_ok example_sequence"
    by (simp add: sequence_ok_def example_sequence_def)
  have h2: "current_frame example_sequence < step example_sequence - 1"
    by (simp add: current_frame_def frameForTime_def example_sequence_def)
  have r: "isRunning example_sequence"
    by (simp add: isRunning_def example_sequence_def)
  from stop_snaps_to_final_frame [OF h1 h2]
  obtain s' where "stop example_sequence = Inr s'"
    "scene s' = frames example_sequence (last (trajectory example_sequence)) (scene example_sequence)"
    "current_frame s' = step example_sequence - 1" "\<not> isRunning s'"
    by blast
  then have "stop example_sequence = Inr s' \<and> scene s' = [10] \<and> current_frame s' = 1 \<and>
      \<not> isRunning s'"
    by (simp add: example_sequence_def)
  with h1 h2 r show ?thesis
    by blast
qed

text \<open>
  The example sequence is what the constructor, \<open>start()\<close> and a tick at 300 ms give, and
  the condition \<open>sequence_ok\<close> holds after the constructor and is kept by \<open>start\<close>, by
  every tick and (above) by \<open>stop\<close>.
\<close>

lemma joint_space_trajectory_example: "joint_space_trajectory [0] [10] 2 = Inr [[0], [10]]"
proof -
  have t: "sample_times 2 = [0, 2]"
    by (simp add: sample_times_def linspace_def upt_rec)
  have "trajectory_columns [0] [10] 2 =
     Inr (map (\<lambda>(p0, p1). map (cubic p0 0 (coeff2 p0 p1 2) (coeff3 p0 p1 2))
                              (sample_times 2)) (zip [0] [10]))"
    by (rule trajectory_columns_eq) simp_all
  then have c: "trajectory_columns [0] [10] 2 = Inr [[0, 10]]"
    by (simp add: t cubic_def coeff2_def coeff3_def del: trajectory_columns.simps)
  show ?thesis
    by (simp add: joint_space_trajectory_def c upt_rec del: trajectory_columns.simps)
qed

lemma example_sequence_reached:
  "(case sequence_init (\<lambda>row shown. row) [0] [10] 1000 2 [] of
      Inl e \<Rightarrow> Inl e
    | Inr s0 \<Rightarrow> (case start s0 of Inl e \<Rightarrow> Inl e | Inr s1 \<Rightarrow> tick s1 300))
   = Inr example_sequence"
  by (simp add: sequence_init_def joint_space_trajectory_example start_def tick_def
      setCurrentTime_def animate_def frameForTime_def Let_def example_sequence_def)

lemma sequence_init_ok:
  assumes "sequence_init fr start_pose stop_pose dur stp sc = Inr s"
  shows "sequence_ok s"
proof (cases "joint_space_trajectory start_pose stop_pose stp")
  case (Inl e)
  with assms show ?thesis
    by (simp add: sequence_init_def Let_def)
next
  case (Inr traj)
  then have "length traj = nat stp"
    by (auto simp: joint_space_trajectory_def split: if_splits sum.splits)
  with assms Inr show ?thesis
    by (auto simp: sequence_init_def Let_def sequence_ok_def)
qed

lemma animate_keeps:
  "animate s i = Inr s2 \<Longrightarrow>
     timeline s2 = timeline s \<and> trajectory s2 = trajectory s \<and> step s2 = step s"
  by (cases "0 \<le> (if i < 0 then int (length (trajectory s)) + i else i) \<and>
             (if i < 0 then int (length (trajectory s)) + i else i) < int (length (trajectory s))")
     (auto simp: animate_def Let_def)

lemma setCurrentTime_keeps:
  assumes "setCurrentTime s msec = Inr s'"
  shows "trajectory s' = trajectory s \<and> step s' = step s \<and>
         duration (timeline s') = duration (timeline s) \<and>
         startFrame (timeline s') = startFrame (timeline s) \<and>
         endFrame (timeline s') = endFrame (timeline s) \<and>
         currentTime (timeline s') = max 0 (min msec (duration (timeline s)))"
proof -
  define t where "t = max 0 (min msec (duration (timeline s)))"
  define s1 where "s1 = s\<lparr>timeline := (timeline s)\<lparr>currentTime := t\<rparr>\<rparr>"
  define changed where
    "changed \<longleftrightarrow> frameForTime (timeline s) (currentTime (timeline s)) \<noteq>
       frameForTime ((timeline s)\<lparr>currentTime := t\<rparr>) t"
  define r where
    "r = (if changed then animate s1 (frameForTime ((timeline s)\<lparr>currentTime := t\<rparr>) t)
          else Inr s1)"
  have unfolded: "setCurrentTime s msec =
      (case r of Inl e \<Rightarrow> Inl e
       | Inr s2 \<Rightarrow> Inr (if t = duration (timeline s) \<and> state (timeline s) = Running
                         then s2\<lparr>timeline := (timeline s2)\<lparr>state := NotRunning\<rparr>\<rparr> else s2))"
    unfolding setCurrentTime_def Let_def r_def changed_def s1_def t_def by (rule refl)
  with assms obtain s2 where r2: "r = Inr s2"
    and s': "s' = (if t = duration (timeline s) \<and> state (timeline s) = Running
                   then s2\<lparr>timeline := (timeline s2)\<lparr>state := NotRunning\<rparr>\<rparr> else s2)"
    by (cases r) auto
  have "timeline s2 = timeline s1 \<and> trajectory s2 = trajectory s1 \<and> step s2 = step s1"
  proof (cases changed)
    case True
    with r2 show ?thesis
      using animate_keeps [of s1 _ s2] by (simp add: r_def)
  next
    case False
    with r2 show ?thesis
      by (simp add: r_def)
  qed
  then show ?thesis
    by (simp add: s' s1_def t_def)
qed

lemma setCurrentTime_ok:
  assumes "sequence_ok s" and "setCurrentTime s msec = Inr s'"
  shows "sequence_ok s'"
  using assms(1) setCurrentTime_keeps [OF assms(2)]
  by (simp add: sequence_ok_def)

lemma start_ok:
  assumes "sequence_ok s" and "start s = Inr s'"
  shows "sequence_ok s'"
proof -
  have "sequence_ok (s\<lparr>timeline := (timeline s)\<lparr>state := Running\<rparr>\<rparr>)"
    using assms(1) by (simp add: sequence_ok_def)
  then show ?thesis
    using assms(2) unfolding start_def by (rule setCurrentTime_ok)
qed

lemma tick_ok:
  assumes "sequence_ok s" and "tick s elapsed = Inr s'"
  shows "sequence_ok s'"
proof (cases "state (timeline s) = Running")
  case True
  with assms(2) have "setCurrentTime s elapsed = Inr s'"
    by (simp add: tick_def)
  with assms(1) show ?thesis
    by (rule setCurrentTime_ok)
next
  case False
  with assms show ?thesis
    by (simp add: tick_def)
qed

end
